theory Spec2Isabelle
  imports Complex_Main "HOL-Library.Word"
begin

section \<open>Data model\<close>

text \<open>
  The graph rewriting engine of \<^verbatim>\<open>ilit/adaptor/tf_utils/quantize_graph/quantize_graph_base.py\<close>
  works on TensorFlow \<^verbatim>\<open>GraphDef\<close> messages. A graph is the ordered list of its
  \<^verbatim>\<open>NodeDef\<close>s; a node has a name, an op kind, an ordered list of input references
  (strings such as \<^verbatim>\<open>conv\<close>, \<^verbatim>\<open>conv:1\<close> or \<^verbatim>\<open>^conv\<close>) and a map of attributes.
\<close>

text \<open>The exceptions the Python code raises, by class.\<close>

datatype error = ValueError | KeyError | IndexError | AxisError | UnboundLocalError

text \<open>The element types the engine reads and writes (\<^verbatim>\<open>dtypes.quint8\<close> and so on).\<close>

datatype dtype = invalid | float32 | int32 | qint8 | quint8 | qint32 | other_dtype nat

text \<open>
  The value a constant node is built from: a Python scalar or a NumPy array
  (shape and row-major values). Floating-point numbers are read as the real numbers
  they denote.
\<close>

datatype payload =
    py_int int
  | py_float real
  | float_array "nat list" "real list"
  | int8_array "nat list" "int list"

text \<open>
  An \<^verbatim>\<open>AttrValue\<close>. \<open>attr_unset\<close> is the default message that reading a map
  entry that is not there gives.
\<close>

datatype attr_value =
    attr_unset
  | attr_type dtype
  | attr_s string
  | attr_b bool
  | attr_f real
  | attr_tensor payload

record node =
  name :: string
  op :: string
  input :: "string list"
  attr :: "string \<rightharpoonup> attr_value"

type_synonym graph = "node list"

text \<open>Sequencing of computations that may raise: the first exception wins.\<close>

definition and_then :: "error + 'a \<Rightarrow> ('a \<Rightarrow> error + 'b) \<Rightarrow> error + 'b" where
  "and_then r f = (case r of Inl e \<Rightarrow> Inl e | Inr x \<Rightarrow> f x)"

text \<open>\<^verbatim>\<open>xs[i]\<close> for a non-negative index: IndexError out of range.\<close>

definition item :: "'a list \<Rightarrow> nat \<Rightarrow> error + 'a" where
  "item xs i = (if i < length xs then Inr (xs ! i) else Inl IndexError)"

text \<open>\<^verbatim>\<open>d[k]\<close> on a dict: KeyError when the key is missing.\<close>

definition lookup :: "('k \<rightharpoonup> 'v) \<Rightarrow> 'k \<Rightarrow> error + 'v" where
  "lookup d k = (case d k of None \<Rightarrow> Inl KeyError | Some v \<Rightarrow> Inr v)"

text \<open>\<^verbatim>\<open>node.attr[k]\<close>: a key that is not in the map reads as the default message.\<close>

definition attr_get :: "node \<Rightarrow> string \<Rightarrow> attr_value" where
  "attr_get n k = (case attr n k of None \<Rightarrow> attr_unset | Some v \<Rightarrow> v)"

text \<open>\<^verbatim>\<open>node.attr[k].type\<close>: the enum's default when the value holds no type.\<close>

definition attr_type_of :: "node \<Rightarrow> string \<Rightarrow> dtype" where
  "attr_type_of n k = (case attr_get n k of attr_type d \<Rightarrow> d | _ \<Rightarrow> invalid)"

subsection \<open>The helper module\<close>

text \<open>
  \<^verbatim>\<open>QuantizeGraphHelper\<close> (\<^verbatim>\<open>quantize_graph_common.py\<close>) is imported by the engine as
  \<^verbatim>\<open>helper\<close>. The engine's functions take it as a parameter \<open>h\<close>, so that what is
  proved of them holds for every implementation of the helper's name functions and of
  its constant-node constructor.
\<close>

record helper =
  node_name_from_input :: "string \<Rightarrow> string"
  ensure_tensor_name_has_port :: "string \<Rightarrow> string"
  unique_node_name_from_input :: "string \<Rightarrow> string"
  create_constant_node :: "string \<Rightarrow> payload \<Rightarrow> dtype \<Rightarrow> nat list option \<Rightarrow> string option \<Rightarrow> node"

text \<open>
  Modelled from the spec: \<^verbatim>\<open>helper.create_node(op, name, inputs)\<close> and the
  \<^verbatim>\<open>helper.set_attr_*\<close> family are defined in \<^verbatim>\<open>quantize_graph_common.py\<close>. By the
  data model (a node is a name, an op kind, ordered inputs and a typed attribute map)
  and by their call sites, the first builds a node with no attribute and the others
  store one attribute under a key.
\<close>

definition create_node :: "string \<Rightarrow> string \<Rightarrow> string list \<Rightarrow> node" where
  "create_node op_type nm inputs = \<lparr>name = nm, op = op_type, input = inputs, attr = Map.empty\<rparr>"

definition set_attr_dtype :: "node \<Rightarrow> string \<Rightarrow> dtype \<Rightarrow> node" where
  "set_attr_dtype n k d = n\<lparr>attr := (attr n)(k \<mapsto> attr_type d)\<rparr>"

definition set_attr_string :: "node \<Rightarrow> string \<Rightarrow> string \<Rightarrow> node" where
  "set_attr_string n k v = n\<lparr>attr := (attr n)(k \<mapsto> attr_s v)\<rparr>"

definition set_attr_bool :: "node \<Rightarrow> string \<Rightarrow> bool \<Rightarrow> node" where
  "set_attr_bool n k v = n\<lparr>attr := (attr n)(k \<mapsto> attr_b v)\<rparr>"

definition set_attr_float :: "node \<Rightarrow> string \<Rightarrow> real \<Rightarrow> node" where
  "set_attr_float n k v = n\<lparr>attr := (attr n)(k \<mapsto> attr_f v)\<rparr>"

subsection \<open>The state of a \<^verbatim>\<open>QuantizeNodeBase\<close> object\<close>

text \<open>\<^verbatim>\<open>node_details\<close>: a node and the names of its consumers, one per input reference.\<close>

record node_details =
  node :: node
  input_node :: "string list"
  output_list :: "string list"

text \<open>
  The fields of \<^verbatim>\<open>self\<close> that the methods read or write. \<^verbatim>\<open>node_name_mapping\<close> is an
  \<^verbatim>\<open>OrderedDict\<close> read by position, so it is an association list in insertion order;
  the other dicts are only read by key.
\<close>

record quantize_node_base =
  node_name_mapping :: "(string \<times> node_details) list"
  op_list :: "string list"
  output_node_maps :: "string \<rightharpoonup> node"
  output_graph :: graph
  quantized_node_dict :: "string \<rightharpoonup> string \<times> string \<times> string"
  intel_cpu_eightbitize :: bool
  per_channel :: bool
  start_node_name :: string
  is_asymmetric :: bool
  device :: string
  enable_s8 :: bool

text \<open>\<^verbatim>\<open>_add_output_node\<close>: the registry refuses a name it already holds.\<close>

definition add_output_node :: "quantize_node_base \<Rightarrow> string \<Rightarrow> node \<Rightarrow> error + quantize_node_base" where
  "add_output_node self node_name n =
     (if output_node_maps self node_name = None
      then Inr (self\<lparr>output_node_maps := (output_node_maps self)(node_name \<mapsto> n)\<rparr>)
      else Inl ValueError)"

text \<open>
  \<^verbatim>\<open>add_output_graph_node\<close>: \<^verbatim>\<open>extend\<close> appends a copy of the node to the output graph,
  then the node is registered.
\<close>

definition add_output_graph_node :: "quantize_node_base \<Rightarrow> node \<Rightarrow> error + quantize_node_base" where
  "add_output_graph_node self output_node =
     add_output_node (self\<lparr>output_graph := output_graph self @ [output_node]\<rparr>)
       (name output_node) output_node"

section \<open>The redundant-quantization eliminator\<close>

text \<open>\<^verbatim>\<open>create_nodes_map\<close>: the loop over \<^verbatim>\<open>graph.node\<close>, with the dict built so far.\<close>

fun create_nodes_map_loop :: "graph \<Rightarrow> (string \<rightharpoonup> node) \<Rightarrow> error + (string \<rightharpoonup> node)" where
  "create_nodes_map_loop [] nodes_map = Inr nodes_map"
| "create_nodes_map_loop (n # ns) nodes_map =
     (if nodes_map (name n) = None
      then create_nodes_map_loop ns (nodes_map(name n \<mapsto> n))
      else Inl ValueError)"

definition create_nodes_map :: "graph \<Rightarrow> error + (string \<rightharpoonup> node)" where
  "create_nodes_map g = create_nodes_map_loop g Map.empty"

text \<open>
  The two patterns for the Min side (lines 447 to 460): the same input as the Max
  side, or a \<^verbatim>\<open>Concat\<close> whose second operand is a \<^verbatim>\<open>Min\<close> of that input.
\<close>

definition is_same_input ::
  "helper \<Rightarrow> (string \<rightharpoonup> node) \<Rightarrow> string \<Rightarrow> string \<Rightarrow> error + bool" where
  "is_same_input h old_nodes_map min_node_input_name max_node_input_name =
     (if min_node_input_name = max_node_input_name then Inr True
      else
        and_then (lookup old_nodes_map min_node_input_name) (\<lambda>first_min_node_input.
        if op first_min_node_input = ''Concat'' then
          and_then (item (input first_min_node_input) 1) (\<lambda>i1.
          let second_min_node_name = node_name_from_input h i1 in
          and_then (lookup old_nodes_map second_min_node_name) (\<lambda>second_min_node.
          if op second_min_node = ''Min'' then
            and_then (item (input second_min_node) 0) (\<lambda>i0.
            let second_min_node_input_name = node_name_from_input h i0 in
            Inr (second_min_node_input_name = max_node_input_name))
          else Inr False))
        else Inr False))"

text \<open>
  The body of the first loop of \<^verbatim>\<open>remove_redundant_quantization\<close> for one node
  (lines 412 to 474). \<open>Inr None\<close> is \<^verbatim>\<open>continue\<close>; \<open>Inr (Some kvs)\<close> gives the three
  assignments to \<^verbatim>\<open>inputs_to_rename\<close> in the order they are made.
\<close>

definition rewire_of ::
  "helper \<Rightarrow> (string \<rightharpoonup> node) \<Rightarrow> node \<Rightarrow> error + (string \<times> string) list option" where
  "rewire_of h old_nodes_map n =
     (if op n \<noteq> ''Quantize'' \<and> op n \<noteq> ''QuantizeV2'' then Inr None
      else
        and_then (item (input n) 0) (\<lambda>n0.
        let dequantize_node_name = node_name_from_input h n0 in
        case old_nodes_map dequantize_node_name of
          None \<Rightarrow> Inl ValueError
        | Some dequantize_node \<Rightarrow>
            if op dequantize_node \<noteq> ''Dequantize'' then Inr None
            else if attr_get n ''T'' \<noteq> attr_get dequantize_node ''T'' then Inr None
            else
              and_then (item (input n) 1) (\<lambda>n1.
              and_then (item (input n) 2) (\<lambda>n2.
              let min_node_name = node_name_from_input h n1;
                  max_node_name = node_name_from_input h n2 in
              and_then (lookup old_nodes_map min_node_name) (\<lambda>min_node.
              and_then (lookup old_nodes_map max_node_name) (\<lambda>max_node.
              let is_min_right_type = (op min_node = ''Min'' \<or> op min_node = ''Dequantize'');
                  is_max_right_type = (op max_node = ''Max'' \<or> op max_node = ''Dequantize'') in
              if \<not> is_min_right_type \<or> \<not> is_max_right_type then Inr None
              else
                and_then (item (input min_node) 0) (\<lambda>m0.
                and_then (item (input max_node) 0) (\<lambda>x0.
                let min_node_input_name = node_name_from_input h m0;
                    max_node_input_name = node_name_from_input h x0 in
                and_then (is_same_input h old_nodes_map min_node_input_name max_node_input_name)
                  (\<lambda>same.
                if \<not> same then Inr None
                else
                  and_then (item (input dequantize_node) 0) (\<lambda>d0.
                  let dequantize_source_name = node_name_from_input h d0;
                      node_tensor_name = ensure_tensor_name_has_port h (name n);
                      min_tensor_name = name n @ '':1'';
                      max_tensor_name = name n @ '':2'' in
                  and_then (item (input dequantize_node) 1) (\<lambda>d1.
                  and_then (item (input dequantize_node) 2) (\<lambda>d2.
                  Inr (Some [(node_tensor_name, dequantize_source_name),
                             (min_tensor_name, d1),
                             (max_tensor_name, d2)])))))))))))))"

text \<open>\<^verbatim>\<open>inputs_to_rename[k] = v\<close> for each recorded pair, in order.\<close>

fun record_rewire :: "(string \<times> string) list \<Rightarrow> (string \<rightharpoonup> string) \<Rightarrow> (string \<rightharpoonup> string)" where
  "record_rewire [] inputs_to_rename = inputs_to_rename"
| "record_rewire ((k, v) # kvs) inputs_to_rename = record_rewire kvs (inputs_to_rename(k \<mapsto> v))"

text \<open>The first loop (lines 409 to 474), with \<^verbatim>\<open>inputs_to_rename\<close> so far.\<close>

fun scan_nodes ::
  "helper \<Rightarrow> (string \<rightharpoonup> node) \<Rightarrow> graph \<Rightarrow> (string \<rightharpoonup> string) \<Rightarrow> error + (string \<rightharpoonup> string)" where
  "scan_nodes h old_nodes_map [] inputs_to_rename = Inr inputs_to_rename"
| "scan_nodes h old_nodes_map (n # ns) inputs_to_rename =
     (case rewire_of h old_nodes_map n of
        Inl e \<Rightarrow> Inl e
      | Inr None \<Rightarrow> scan_nodes h old_nodes_map ns inputs_to_rename
      | Inr (Some kvs) \<Rightarrow> scan_nodes h old_nodes_map ns (record_rewire kvs inputs_to_rename))"




text \<open>
  The claim about the first loop, in the specification's words: the Min and Max inputs
  trace to the same source directly (the names of their first inputs are equal), or
  through one \<^verbatim>\<open>Concat\<close> whose second operand is a \<^verbatim>\<open>Min\<close> node with the Max side's
  first input. \<open>m0\<close> and \<open>x0\<close> are the first inputs of the Min and of the Max node.
\<close>

definition same_source :: "helper \<Rightarrow> (string \<rightharpoonup> node) \<Rightarrow> string \<Rightarrow> string \<Rightarrow> bool" where
  "same_source h old_nodes_map m0 x0 =
     (node_name_from_input h m0 = node_name_from_input h x0 \<or>
      (case old_nodes_map (node_name_from_input h m0) of
         None \<Rightarrow> False
       | Some c \<Rightarrow>
           op c = ''Concat'' \<and> 1 < length (input c) \<and>
           (case old_nodes_map (node_name_from_input h (input c ! 1)) of
              None \<Rightarrow> False
            | Some s \<Rightarrow>
                op s = ''Min'' \<and> input s \<noteq> [] \<and>
                node_name_from_input h (input s ! 0) = node_name_from_input h x0)))"





section \<open>The graph index and the fusion matcher\<close>

text \<open>
  \<^verbatim>\<open>_parse_graph\<close>, first loop: one \<^verbatim>\<open>node_details\<close> per node, in graph order; a name
  that is already a key is a ValueError.
\<close>

fun index_nodes ::
  "graph \<Rightarrow> (string \<times> node_details) list \<Rightarrow> error + (string \<times> node_details) list" where
  "index_nodes [] mapping = Inr mapping"
| "index_nodes (n # ns) mapping =
     (if map_of mapping (name n) \<noteq> None then Inl ValueError
      else index_nodes ns (mapping @ [(name n, \<lparr>node = n, input_node = [], output_list = []\<rparr>)]))"

text \<open>\<^verbatim>\<open>mapping[key].output.append(consumer)\<close>: KeyError when the key is missing.\<close>

definition append_output ::
  "(string \<times> node_details) list \<Rightarrow> string \<Rightarrow> string \<Rightarrow> error + (string \<times> node_details) list" where
  "append_output mapping key consumer =
     (case map_of mapping key of
        None \<Rightarrow> Inl KeyError
      | Some d0 \<Rightarrow>
          Inr (map (\<lambda>(k, d). if k = key then (k, d\<lparr>output_list := output_list d @ [consumer]\<rparr>)
                              else (k, d)) mapping))"

text \<open>\<^verbatim>\<open>_parse_graph\<close>, second loop: every input reference makes its node a consumer.\<close>

fun link_inputs ::
  "helper \<Rightarrow> string \<Rightarrow> string list \<Rightarrow> (string \<times> node_details) list \<Rightarrow>
     error + (string \<times> node_details) list" where
  "link_inputs h consumer [] mapping = Inr mapping"
| "link_inputs h consumer (i # is) mapping =
     and_then (append_output mapping (node_name_from_input h i) consumer) (link_inputs h consumer is)"

fun link_nodes ::
  "helper \<Rightarrow> graph \<Rightarrow> (string \<times> node_details) list \<Rightarrow> error + (string \<times> node_details) list" where
  "link_nodes h [] mapping = Inr mapping"
| "link_nodes h (n # ns) mapping =
     and_then (link_inputs h (name n) (input n) mapping) (link_nodes h ns)"

definition parse_graph :: "helper \<Rightarrow> graph \<Rightarrow> error + (string \<times> node_details) list" where
  "parse_graph h g = and_then (index_nodes g []) (link_nodes h g)"

text \<open>\<^verbatim>\<open>_get_op_list\<close>: the op kinds in the order of the index.\<close>

definition get_op_list :: "(string \<times> node_details) list \<Rightarrow> string list" where
  "get_op_list mapping = map (\<lambda>(k, d). op (node d)) mapping"

text \<open>\<^verbatim>\<open>s.find(sub) != -1\<close>: \<open>sub\<close> occurs in \<open>s\<close>.\<close>

fun contains :: "string \<Rightarrow> string \<Rightarrow> bool" where
  "contains [] sub = (sub = [])"
| "contains (c # cs) sub = (take (length sub) (c # cs) = sub \<or> contains cs sub)"

definition need_to_check :: "string \<Rightarrow> bool" where
  "need_to_check node_type =
     list_ex (contains node_type)
       [''ConcatV2'', ''Conv2D'', ''DepthwiseConv2D'', ''QuantizeV2'', ''DepthwiseConv2dNative'',
        ''MaxPool'', ''Requantize'', ''AvgPool'', ''Pad'', ''CropAndResize'', ''Dequantize'',
        ''Mean'', ''MatMul'']"

text \<open>
  \<^verbatim>\<open>_find_relu_node\<close>: the activation lookback. The recursion follows first inputs and
  has no guard against a cycle, so the model counts the calls it may still make:
  \<open>None\<close> says that the lookback has not returned within that many calls.
\<close>

fun find_relu_node ::
  "nat \<Rightarrow> helper \<Rightarrow> quantize_node_base \<Rightarrow> node \<Rightarrow> (error + bool) option" where
  "find_relu_node 0 h self n = None"
| "find_relu_node (Suc fuel) h self n =
     (if op n = ''Relu'' \<or> op n = ''Relu6'' \<or> contains (op n) ''AndRelu'' then Some (Inr True)
      else if (contains (op n) ''QuantizedConv'' \<or> contains (op n) ''QuantizedDepthwiseConv'' \<or>
               contains (op n) ''QuantizedMatMul'') \<and> \<not> contains (op n) ''Relu''
      then Some (Inr False)
      else if need_to_check (op n) then
        (case item (input n) 0 of
           Inl e \<Rightarrow> Some (Inl e)
         | Inr i0 \<Rightarrow>
             (case lookup (map_of (node_name_mapping self)) (node_name_from_input h i0) of
                Inl e \<Rightarrow> Some (Inl e)
              | Inr input_details \<Rightarrow> find_relu_node fuel h self (node input_details)))
      else Some (Inr False))"

text \<open>\<^verbatim>\<open>xs[i]\<close> for any integer index: a negative one counts from the end.\<close>

definition item_int :: "'a list \<Rightarrow> int \<Rightarrow> error + 'a" where
  "item_int xs i =
     (if 0 \<le> i then item xs (nat i)
      else if nat (- i) \<le> length xs then Inr (xs ! (length xs - nat (- i)))
      else Inl IndexError)"

text \<open>\<^verbatim>\<open>xs.index(x)\<close>: the first position of \<open>x\<close>, ValueError when there is none.\<close>

fun index_of :: "'a list \<Rightarrow> 'a \<Rightarrow> error + nat" where
  "index_of [] x = Inl ValueError"
| "index_of (y # ys) x = (if y = x then Inr 0 else and_then (index_of ys x) (\<lambda>i. Inr (Suc i)))"

text \<open>
  The loop over the inputs of an \<^verbatim>\<open>Add\<close> or \<^verbatim>\<open>AddN\<close> consumer (lines 173 to 180): the
  result is \<^verbatim>\<open>add_op_quantizable\<close>.
\<close>

fun add_inputs_quantizable ::
  "helper \<Rightarrow> (string \<times> node_details) list \<Rightarrow> string \<Rightarrow> nat \<Rightarrow> (nat \<times> string) list \<Rightarrow> error + bool" where
  "add_inputs_quantizable h mapping cur_node_name cur_node_index [] = Inr True"
| "add_inputs_quantizable h mapping cur_node_name cur_node_index ((index, input_name) # rest) =
     and_then (lookup (map_of mapping) (node_name_from_input h input_name)) (\<lambda>d.
     let node_type = op (node d) in
     if input_name \<noteq> cur_node_name \<and> index < cur_node_index \<and> node_type \<noteq> ''Dequantize''
     then Inr False
     else add_inputs_quantizable h mapping cur_node_name cur_node_index rest)"

text \<open>
  One turn of the \<^verbatim>\<open>while sub_rule_len > 1\<close> loop (lines 153 to 195) at the tail
  \<open>cur_node_name\<close>: the tail has no consumer (\<^verbatim>\<open>break\<close>), the chain is extended by the
  first consumer, or the rule fails and \<^verbatim>\<open>matched_node_name\<close> is cleared.
\<close>

datatype chain_step = No_consumer | Extended string | Failed

definition extend_step ::
  "helper \<Rightarrow> (string \<times> node_details) list \<Rightarrow> string list \<Rightarrow> nat \<Rightarrow> string \<Rightarrow> error + chain_step" where
  "extend_step h mapping sub_rule sub_rule_len cur_node_name =
     and_then (lookup (map_of mapping) cur_node_name) (\<lambda>cur.
     if output_list cur = [] then Inr No_consumer
     else
       let next_node_name = output_list cur ! 0 in
       and_then (lookup (map_of mapping) next_node_name) (\<lambda>next.
       let next_node_op = op (node next) in
       and_then
         (if next_node_op = ''Add'' \<or> next_node_op = ''AddN'' then
            (let next_node_inputs = input (node next) in
             and_then (index_of next_node_inputs cur_node_name) (\<lambda>cur_node_index.
             add_inputs_quantizable h mapping cur_node_name cur_node_index
               (List.enumerate 0 next_node_inputs)))
          else Inr True) (\<lambda>add_op_quantizable.
       let is_shared_output = (length (output_list cur) > 1) in
       if add_op_quantizable \<and> \<not> is_shared_output then
         and_then (item_int sub_rule (1 - int sub_rule_len)) (\<lambda>expected.
         if next_node_op = expected then Inr (Extended next_node_name) else Inr Failed)
       else Inr Failed)))"

text \<open>
  The \<^verbatim>\<open>while sub_rule_len > 1\<close> loop (lines 152 to 195). The result is the pair of
  \<^verbatim>\<open>sub_rule_len\<close> and \<^verbatim>\<open>matched_node_name\<close> when the loop is left.
\<close>

fun extend_chain ::
  "helper \<Rightarrow> (string \<times> node_details) list \<Rightarrow> string list \<Rightarrow> nat \<Rightarrow> string \<Rightarrow> string list \<Rightarrow>
     error + nat \<times> string list" where
  "extend_chain h mapping sub_rule 0 cur_node_name matched_node_name = Inr (0, matched_node_name)"
| "extend_chain h mapping sub_rule (Suc 0) cur_node_name matched_node_name =
     Inr (Suc 0, matched_node_name)"
| "extend_chain h mapping sub_rule (Suc (Suc r)) cur_node_name matched_node_name =
     (case extend_step h mapping sub_rule (Suc (Suc r)) cur_node_name of
        Inl e \<Rightarrow> Inl e
      | Inr No_consumer \<Rightarrow> Inr (Suc (Suc r), matched_node_name)
      | Inr Failed \<Rightarrow> Inr (Suc (Suc r), [])
      | Inr (Extended next_node_name) \<Rightarrow>
          extend_chain h mapping sub_rule (Suc r) next_node_name
            (matched_node_name @ [next_node_name]))"

text \<open>
  The loop over the rules (lines 139 to 200) for the node at key \<open>cur_node_name\<close> with
  op kind \<open>v\<close>: the first rule that is matched to its end is returned.
\<close>

definition try_rule ::
  "helper \<Rightarrow> (string \<times> node_details) list \<Rightarrow> string \<Rightarrow> string \<Rightarrow> string list \<Rightarrow>
     error + (string list \<times> string list) option" where
  "try_rule h mapping v cur_node_name sub_rule =
     and_then (item sub_rule 0) (\<lambda>first.
     if v \<noteq> first then Inr None
     else
       and_then (extend_chain h mapping sub_rule (length sub_rule) cur_node_name [cur_node_name])
         (\<lambda>(sub_rule_len, matched_node_name).
       if sub_rule_len = 1 then Inr (Some (sub_rule, matched_node_name)) else Inr None))"

fun try_rules ::
  "helper \<Rightarrow> (string \<times> node_details) list \<Rightarrow> string \<Rightarrow> string \<Rightarrow> string list list \<Rightarrow>
     error + (string list \<times> string list) option" where
  "try_rules h mapping v cur_node_name [] = Inr None"
| "try_rules h mapping v cur_node_name (sub_rule # rules) =
     (case try_rule h mapping v cur_node_name sub_rule of
        Inl e \<Rightarrow> Inl e
      | Inr (Some found) \<Rightarrow> Inr (Some found)
      | Inr None \<Rightarrow> try_rules h mapping v cur_node_name rules)"

text \<open>\<^verbatim>\<open>set(fusion[0] for fusion in patterns)\<close>: IndexError on an empty rule.\<close>

fun first_ops :: "string list list \<Rightarrow> error + string list" where
  "first_ops [] = Inr []"
| "first_ops (fusion # rest) =
     and_then (item fusion 0) (\<lambda>f. and_then (first_ops rest) (\<lambda>fs. Inr (f # fs)))"

text \<open>
  The body of the loop of \<^verbatim>\<open>_is_match\<close> for the position \<open>k\<close> with op kind \<open>v\<close>
  (lines 128 to 200). \<open>Some (Inr None)\<close> says that the loop goes on with the next
  position, \<open>Some (Inr (Some (rule, names)))\<close> is a match, and \<open>None\<close> says that the
  lookback has not returned.
\<close>

definition match_at ::
  "nat \<Rightarrow> helper \<Rightarrow> quantize_node_base \<Rightarrow> string list list \<Rightarrow> nat \<Rightarrow> string \<Rightarrow>
     (error + (string list \<times> string list) option) option" where
  "match_at fuel h self patterns k v =
     (case first_ops patterns of
        Inl e \<Rightarrow> Some (Inl e)
      | Inr firsts \<Rightarrow>
          if v \<notin> set firsts then Some (Inr None)
          else
            (case and_then (item (map fst (node_name_mapping self)) k)
                    (lookup (map_of (node_name_mapping self))) of
               Inl e \<Rightarrow> Some (Inl e)
             | Inr cur \<Rightarrow>
                 (let cur_node = node cur in
                  if name cur_node \<noteq> start_node_name self then Some (Inr None)
                  else
                    (case (if (v = ''Conv2D'' \<or> v = ''DepthwiseConv2dNative'') \<and> \<not> enable_s8 self
                           then find_relu_node fuel h self cur_node else Some (Inr True)) of
                       None \<Rightarrow> None
                     | Some (Inl e) \<Rightarrow> Some (Inl e)
                     | Some (Inr relu) \<Rightarrow>
                         if \<not> relu then Some (Inr None)
                         else
                           Some (and_then (item (map fst (node_name_mapping self)) k)
                                   (\<lambda>cur_node_name.
                                      try_rules h (node_name_mapping self) v cur_node_name patterns))))))"

text \<open>
  \<^verbatim>\<open>_is_match\<close>: the loop over \<^verbatim>\<open>enumerate(self.op_list)\<close>. \<open>Some (Inr None)\<close> is the
  no-match result \<^verbatim>\<open>(None, None)\<close>.
\<close>

fun is_match_loop ::
  "nat \<Rightarrow> helper \<Rightarrow> quantize_node_base \<Rightarrow> string list list \<Rightarrow> (nat \<times> string) list \<Rightarrow>
     (error + (string list \<times> string list) option) option" where
  "is_match_loop fuel h self patterns [] = Some (Inr None)"
| "is_match_loop fuel h self patterns ((k, v) # rest) =
     (case match_at fuel h self patterns k v of
        Some (Inr None) \<Rightarrow> is_match_loop fuel h self patterns rest
      | r \<Rightarrow> r)"

definition is_match ::
  "nat \<Rightarrow> helper \<Rightarrow> quantize_node_base \<Rightarrow> string list list \<Rightarrow>
     (error + (string list \<times> string list) option) option" where
  "is_match fuel h self patterns =
     is_match_loop fuel h self patterns (List.enumerate 0 (op_list self))"

section \<open>The quantization subgraph synthesizer\<close>

text \<open>
  \<^verbatim>\<open>_add_quantize_down_nodes\<close>: the Requantize epilogue. The float literals \<^verbatim>\<open>6.0\<close> and
  \<^verbatim>\<open>1e30\<close> are the numbers 6 and \<open>10 ^ 30\<close>. The result is the name of the
  \<^verbatim>\<open>Requantize\<close> node and the object.
\<close>

definition add_quantize_down_nodes ::
  "quantize_node_base \<Rightarrow> node \<Rightarrow> string \<Rightarrow> dtype \<Rightarrow> bool \<Rightarrow> error + string \<times> quantize_node_base" where
  "add_quantize_down_nodes self original_node quantized_output_name requantize_type is_relu6 =
     (let quantized_outputs =
            [quantized_output_name, quantized_output_name @ '':1'', quantized_output_name @ '':2''];
          requant_range_node0 =
            create_node
              (if per_channel self then ''RequantizationRangePerChannel'' else ''RequantizationRange'')
              (name original_node @ ''_eightbit_requant_range'') quantized_outputs;
          requant_range_node =
            (if per_channel self then
               (let n1 = set_attr_dtype requant_range_node0 ''T'' qint32 in
                if is_relu6 then set_attr_float n1 ''clip_value_max'' 6
                else set_attr_float n1 ''clip_value_max'' (10 ^ 30))
             else set_attr_dtype requant_range_node0 ''Tinput'' qint32)
      in
      and_then (add_output_graph_node self requant_range_node) (\<lambda>self1.
      let min_max_inputs = [name requant_range_node @ '':0'', name requant_range_node @ '':1''];
          requantize_node0 =
            create_node (if per_channel self then ''RequantizePerChannel'' else ''Requantize'')
              (name original_node @ ''_eightbit_requantize'') (quantized_outputs @ min_max_inputs);
          requantize_node1 =
            (if per_channel self then set_attr_dtype requantize_node0 ''T'' qint32
             else set_attr_dtype requantize_node0 ''Tinput'' qint32);
          requantize_node = set_attr_dtype requantize_node1 ''out_type'' requantize_type
      in
      and_then (add_output_graph_node self1 requantize_node) (\<lambda>self2.
      Inr (name requantize_node, self2))))"

text \<open>
  \<^verbatim>\<open>_eightbitize_input_to_node\<close>: one float input of an op is turned into its quantized
  form, once per key of \<^verbatim>\<open>quantized_node_dict\<close>. The result is the triple of names
  (quantized value, min, max) and the object.
\<close>

definition eightbitize_input_to_node ::
  "helper \<Rightarrow> quantize_node_base \<Rightarrow> string \<Rightarrow> string \<Rightarrow> string \<Rightarrow> string \<Rightarrow> dtype \<Rightarrow>
     error + (string \<times> string \<times> string) \<times> quantize_node_base" where
  "eightbitize_input_to_node h self namespace_prefix original_input_name reshape_dims_name
       reduction_dims_name dt =
     (let unique_input_name = unique_node_name_from_input h original_input_name in
      case quantized_node_dict self unique_input_name of
        Some quantized_tuple \<Rightarrow> Inr (quantized_tuple, self)
      | None \<Rightarrow>
          (let reshape_input_name = namespace_prefix @ ''_reshape_'' @ unique_input_name;
               min_input_name = namespace_prefix @ ''_min_'' @ unique_input_name;
               max_input_name = namespace_prefix @ ''_max_'' @ unique_input_name;
               quantize_input_name = namespace_prefix @ ''_quantize_'' @ unique_input_name;
               reshape_input_node =
                 set_attr_dtype
                   (create_node ''Reshape'' reshape_input_name [original_input_name, reshape_dims_name])
                   ''T'' float32
           in
           and_then (add_output_graph_node self reshape_input_node) (\<lambda>self1.
           let min_input_node =
                 set_attr_bool
                   (set_attr_dtype
                      (set_attr_dtype
                         (create_node ''Min'' min_input_name [reshape_input_name, reduction_dims_name])
                         ''T'' float32)
                      ''Tidx'' int32)
                   ''keep_dims'' False
           in
           and_then (add_output_graph_node self1 min_input_node) (\<lambda>self2.
           let max_input_node =
                 set_attr_bool
                   (set_attr_dtype
                      (set_attr_dtype
                         (create_node ''Max'' max_input_name [reshape_input_name, reduction_dims_name])
                         ''T'' float32)
                      ''Tidx'' int32)
                   ''keep_dims'' False
           in
           and_then (add_output_graph_node self2 max_input_node) (\<lambda>self3.
           let quantize_input_node0 =
                 set_attr_string
                   (set_attr_dtype
                      (create_node ''QuantizeV2'' quantize_input_name
                         [original_input_name, min_input_name, max_input_name])
                      ''T'' dt)
                   ''mode'' (if is_asymmetric self then ''MIN_FIRST'' else ''SCALED'');
               quantize_input_node =
                 (if \<not> is_asymmetric self
                  then set_attr_string quantize_input_node0 ''round_mode'' ''HALF_TO_EVEN''
                  else quantize_input_node0)
           in
           and_then (add_output_graph_node self3 quantize_input_node) (\<lambda>self4.
           let min_output_name = quantize_input_name @ '':1'';
               max_output_name = quantize_input_name @ '':2''
           in
           Inr ((quantize_input_name, min_output_name, max_output_name),
                self4\<lparr>quantized_node_dict :=
                  (quantized_node_dict self4)
                    (unique_input_name \<mapsto> (quantize_input_name, min_output_name, max_output_name))\<rparr>)))))))"








text \<open>What a call appended to the output graph.\<close>

definition emitted :: "quantize_node_base \<Rightarrow> error + 'a \<times> quantize_node_base \<Rightarrow> error + graph" where
  "emitted self r =
     and_then r (\<lambda>(x, self'). Inr (drop (length (output_graph self)) (output_graph self')))"

section \<open>Weight calibration and quantization\<close>

text \<open>
  A weight tensor is a NumPy array: its shape and its values in row-major order. The
  values are read as real numbers and the arithmetic on them is exact: the model has
  the comparisons, the clamping and the formulas of the code, not the rounding of
  the machine's floating-point operations, and no NaN or infinity.
\<close>

type_synonym ndarray = "nat list \<times> real list"

text \<open>\<^verbatim>\<open>epsilon = 1e-4\<close>.\<close>

definition epsilon :: real where
  "epsilon = 1 / 10000"

text \<open>\<^verbatim>\<open>np.min\<close> and \<^verbatim>\<open>np.max\<close> of a flat array: ValueError on an empty one.\<close>

fun minimum :: "real list \<Rightarrow> error + real" where
  "minimum [] = Inl ValueError"
| "minimum (x # xs) = Inr (fold min xs x)"

fun maximum :: "real list \<Rightarrow> error + real" where
  "maximum [] = Inl ValueError"
| "maximum (x # xs) = Inr (fold max xs x)"

text \<open>
  \<^verbatim>\<open>.astype(np.int8)\<close> of a floating-point value: the fraction is dropped (rounding
  towards zero) and the integer is kept modulo \<open>2 ^ 8\<close>, as a signed byte.
\<close>

definition astype_int8 :: "real \<Rightarrow> int" where
  "astype_int8 x =
     (let i = (if 0 \<le> x then \<lfloor>x\<rfloor> else \<lceil>x\<rceil>); m = i mod 256
      in if m < 128 then m else m - 256)"

text \<open>
  The values of channel \<open>c\<close> when the trailing axes hold \<open>n\<close> channels: in row-major
  order these are the positions \<open>p\<close> with \<open>p mod n = c\<close>.
\<close>

definition channel :: "nat \<Rightarrow> real list \<Rightarrow> nat \<Rightarrow> real list" where
  "channel n vals c = map (\<lambda>p. vals ! p) (filter (\<lambda>p. p mod n = c) [0..<length vals])"

text \<open>
  \<^verbatim>\<open>np.abs(float_tensor).max(axis=...)\<close> over the leading axes: one maximum per channel;
  ValueError when a channel has no value (a reduction over a zero-size axis).
\<close>

fun maxima :: "real list list \<Rightarrow> error + real list" where
  "maxima [] = Inr []"
| "maxima (xs # xss) =
     and_then (maximum (map abs xs)) (\<lambda>m. and_then (maxima xss) (\<lambda>ms. Inr (m # ms)))"

definition channel_ranges :: "nat \<Rightarrow> real list \<Rightarrow> error + real list" where
  "channel_ranges n vals = maxima (map (channel n vals) [0..<n])"


text \<open>
  The per-channel formula (lines 613 to 620 and 657 to 670) on \<open>n\<close> channels.
  \<^verbatim>\<open>max_value = ranges\<close> makes \<^verbatim>\<open>max_value\<close> another name of the array \<^verbatim>\<open>ranges\<close>, so the
  assignment into \<^verbatim>\<open>ranges\<close> changes \<^verbatim>\<open>max_value\<close> too; \<^verbatim>\<open>min_value = -ranges\<close> is an
  array of its own, made before that assignment. The result is the quantized values
  and the arrays \<^verbatim>\<open>min_value\<close> and \<^verbatim>\<open>max_value\<close>.
\<close>

definition per_channel_quantize :: "nat \<Rightarrow> real list \<Rightarrow> error + int list \<times> real list \<times> real list" where
  "per_channel_quantize n vals =
     and_then (channel_ranges n vals) (\<lambda>ranges0.
     let min_value0 = map uminus ranges0;
         ranges = map (\<lambda>r. if r < epsilon then epsilon else r) ranges0;
         min_value = map (\<lambda>m. if \<bar>m\<bar> < epsilon then - epsilon else m) min_value0;
         max_value = map (\<lambda>m. if \<bar>m\<bar> < epsilon then epsilon else m) ranges;
         qint8_tensor =
           map (\<lambda>(p, v). astype_int8 (v * 127 / ranges ! (p mod n))) (List.enumerate 0 vals)
     in Inr (qint8_tensor, min_value, max_value))"

text \<open>
  The correction of the per-tensor range before the quantize kernel is called
  (lines 626 to 634).
\<close>

definition corrected_range :: "real \<Rightarrow> real \<Rightarrow> real \<times> real" where
  "corrected_range min_value0 max_value0 =
     (let min_value = (if min_value0 > 0 then 0 else min_value0);
          max_value =
            (if min_value = max_value0 then
               (if \<bar>min_value\<bar> < 1 / 1000000 then min_value + 1
                else if min_value > 0 then 2 * min_value
                else min_value / 2)
             else max_value0)
      in (min_value, max_value))"

text \<open>
  The numeric part of \<^verbatim>\<open>_intel_cpu_quantize_weight_eightbit\<close> (lines 611 to 672): the
  quantized values with the values of the min and max constants. \<open>quantize_v2\<close> is
  TensorFlow's kernel \<^verbatim>\<open>array_ops.quantize_v2\<close> for \<^verbatim>\<open>qint8\<close> with round mode
  \<^verbatim>\<open>HALF_TO_EVEN\<close>, a parameter: it takes the tensor, the range and the mode and gives
  the quantized values and the range it has settled on. A parent of any other kind
  leaves \<^verbatim>\<open>qint8_tensor\<close> unbound.
\<close>

definition quantize_weight_values ::
  "(ndarray \<Rightarrow> real \<Rightarrow> real \<Rightarrow> string \<Rightarrow> int list \<times> real \<times> real) \<Rightarrow> string \<Rightarrow> ndarray \<Rightarrow> bool \<Rightarrow>
     string \<Rightarrow> error + int list \<times> payload \<times> payload" where
  "quantize_weight_values quantize_v2 parent float_tensor per_channel_arg quantization_mode =
     (let shape = fst float_tensor; vals = snd float_tensor in
      if parent = ''Conv2D'' \<or> parent = ''MatMul'' then
        (if per_channel_arg then
           (if length shape < 3 then Inl AxisError
            else
              and_then (per_channel_quantize (prod_list (drop 3 shape)) vals)
                (\<lambda>(qint8_tensor, min_value, max_value).
                   Inr (qint8_tensor, float_array (drop 3 shape) min_value,
                        float_array (drop 3 shape) max_value)))
         else
           and_then (minimum vals) (\<lambda>min_value0.
           and_then (maximum vals) (\<lambda>max_value0.
           let r = corrected_range min_value0 max_value0;
               quantize_op = quantize_v2 float_tensor (fst r) (snd r) quantization_mode
           in Inr (fst quantize_op, py_float (fst (snd quantize_op)),
                   py_float (snd (snd quantize_op))))))
      else if parent = ''DepthwiseConv2dNative'' then
        (if length shape < 2 then Inl AxisError
         else
           and_then (per_channel_quantize (prod_list (drop 2 shape)) vals)
             (\<lambda>(qint8_tensor, min_value, max_value).
                if length shape \<noteq> 4 then Inl ValueError
                else Inr (qint8_tensor, float_array [prod_list (drop 2 shape)] min_value,
                          float_array [prod_list (drop 2 shape)] max_value)))
      else Inl UnboundLocalError)"

text \<open>
  \<^verbatim>\<open>_intel_cpu_quantize_weight_eightbit\<close>. \<open>float_tensor\<close> is what
  \<^verbatim>\<open>tensor_util.MakeNdarray\<close> reads from the \<^verbatim>\<open>value\<close> attribute of \<open>input_node_arg\<close>.
\<close>

definition intel_cpu_quantize_weight_eightbit ::
  "helper \<Rightarrow> (ndarray \<Rightarrow> real \<Rightarrow> real \<Rightarrow> string \<Rightarrow> int list \<times> real \<times> real) \<Rightarrow> quantize_node_base \<Rightarrow>
     string \<Rightarrow> node \<Rightarrow> ndarray \<Rightarrow> bool \<Rightarrow> string \<Rightarrow> error + quantize_node_base" where
  "intel_cpu_quantize_weight_eightbit h quantize_v2 self parent input_node_arg float_tensor
       per_channel_arg quantization_mode =
     (let base_name = name input_node_arg @ ''_'';
          qint8_const_name = base_name @ ''qint8_const'';
          min_name = base_name @ ''min'';
          max_name = base_name @ ''max''
      in
      and_then (quantize_weight_values quantize_v2 parent float_tensor per_channel_arg
                  quantization_mode) (\<lambda>(qint8_tensor, min_value, max_value).
      let shape = fst float_tensor;
          qint8_const_node =
            create_constant_node h qint8_const_name (int8_array shape qint8_tensor) qint8
              (Some shape) None;
          min_node = create_constant_node h min_name min_value float32 None (Some (device self));
          max_node = create_constant_node h max_name max_value float32 None (Some (device self));
          dequantize_node =
            set_attr_string
              (set_attr_dtype
                 (create_node ''Dequantize'' (name input_node_arg) [qint8_const_name, min_name, max_name])
                 ''T'' qint8)
              ''mode'' ''SCALED''
      in
      and_then (add_output_graph_node self qint8_const_node) (\<lambda>self1.
      and_then (add_output_graph_node self1 min_node) (\<lambda>self2.
      and_then (add_output_graph_node self2 max_node) (\<lambda>self3.
      add_output_graph_node self3 dequantize_node)))))"

section \<open>An implementation of the helper's name functions\<close>

text \<open>
  Modelled from the spec: \<^verbatim>\<open>quantize_graph_common.py\<close>, with the three name functions
  of \<^verbatim>\<open>QuantizeGraphHelper\<close>, is not under the sources. By the data model an input
  reference is a node name, optionally followed by an output-slot index
  (\<^verbatim>\<open>name:slot\<close>), or a control edge marked by the reserved prefix \<^verbatim>\<open>^\<close>. The
  functions below read references so: the node name is the reference without
  marker and slot, a tensor name gets slot 0 when it carries none, and the unique
  name replaces the two reserved characters. They are used at concrete graphs only;
  the general results hold for every helper.
\<close>

definition is_digit :: "char \<Rightarrow> bool" where
  "is_digit c = (c \<in> set ''0123456789'')"

definition has_port :: "string \<Rightarrow> bool" where
  "has_port s =
     (let r = rev s; rest = dropWhile is_digit r
      in takeWhile is_digit r \<noteq> [] \<and> rest \<noteq> [] \<and> hd rest = CHR '':'')"

definition strip_port :: "string \<Rightarrow> string" where
  "strip_port s = (if has_port s then rev (tl (dropWhile is_digit (rev s))) else s)"

definition node_name_from_input_impl :: "string \<Rightarrow> string" where
  "node_name_from_input_impl s =
     strip_port (case s of [] \<Rightarrow> [] | c # cs \<Rightarrow> if c = CHR ''^'' then cs else s)"

definition ensure_tensor_name_has_port_impl :: "string \<Rightarrow> string" where
  "ensure_tensor_name_has_port_impl s = (if has_port s then s else s @ '':0'')"

definition unique_node_name_from_input_impl :: "string \<Rightarrow> string" where
  "unique_node_name_from_input_impl s =
     concat (map (\<lambda>c. if c = CHR '':'' then ''__port__''
                       else if c = CHR ''^'' then ''__hat__'' else [c]) s)"

definition create_constant_node_impl ::
  "string \<Rightarrow> payload \<Rightarrow> dtype \<Rightarrow> nat list option \<Rightarrow> string option \<Rightarrow> node" where
  "create_constant_node_impl nm v d shp dev =
     \<lparr>name = nm, op = ''Const'', input = [],
      attr = [''dtype'' \<mapsto> attr_type d, ''value'' \<mapsto> attr_tensor v]\<rparr>"

definition helper_impl :: helper where
  "helper_impl =
     \<lparr>node_name_from_input = node_name_from_input_impl,
      ensure_tensor_name_has_port = ensure_tensor_name_has_port_impl,
      unique_node_name_from_input = unique_node_name_from_input_impl,
      create_constant_node = create_constant_node_impl\<rparr>"

section \<open>Example graphs\<close>

text \<open>A fresh object: nothing emitted, nothing memoized.\<close>

definition fresh :: quantize_node_base where
  "fresh =
     \<lparr>node_name_mapping = [], op_list = [], output_node_maps = Map.empty, output_graph = [],
      quantized_node_dict = Map.empty, intel_cpu_eightbitize = True, per_channel = False,
      start_node_name = [], is_asymmetric = False, device = ''cpu'', enable_s8 = True\<rparr>"

definition mk_node :: "string \<Rightarrow> string \<Rightarrow> string list \<Rightarrow> dtype \<Rightarrow> node" where
  "mk_node nm op_type inputs t = set_attr_dtype (create_node op_type nm inputs) ''T'' t"

text \<open>
  One round trip: \<^verbatim>\<open>x\<close> is a quantized op, \<^verbatim>\<open>D\<close> dequantizes it, \<^verbatim>\<open>Q\<close> quantizes the
  result again over the range that \<^verbatim>\<open>Mn\<close> and \<^verbatim>\<open>Mx\<close> find, \<^verbatim>\<open>C\<close> consumes \<^verbatim>\<open>Q\<close>.
\<close>

definition round_trip :: graph where
  "round_trip =
     [mk_node ''x'' ''QuantizedConv2D'' [] quint8,
      mk_node ''D'' ''Dequantize'' [''x'', ''x:1'', ''x:2''] quint8,
      mk_node ''Mn'' ''Min'' [''D''] float32,
      mk_node ''Mx'' ''Max'' [''D''] float32,
      mk_node ''Q'' ''QuantizeV2'' [''D'', ''Mn'', ''Mx''] quint8,
      mk_node ''C'' ''QuantizedMaxPool'' [''Q'', ''Q:1'', ''Q:2''] quint8]"

definition round_trip_rewired :: graph where
  "round_trip_rewired =
     [mk_node ''x'' ''QuantizedConv2D'' [] quint8,
      mk_node ''D'' ''Dequantize'' [''x'', ''x:1'', ''x:2''] quint8,
      mk_node ''Mn'' ''Min'' [''D''] float32,
      mk_node ''Mx'' ''Max'' [''D''] float32,
      mk_node ''Q'' ''QuantizeV2'' [''D'', ''Mn'', ''Mx''] quint8,
      mk_node ''C'' ''QuantizedMaxPool'' [''x'', ''x:1'', ''x:2''] quint8]"

definition round_trip_map :: "string \<rightharpoonup> node" where
  "round_trip_map = (case create_nodes_map round_trip of Inr m \<Rightarrow> m | Inl e \<Rightarrow> Map.empty)"

text \<open>Two round trips in a row: the second dequantizes what the first quantized.\<close>

definition chain :: graph where
  "chain =
     [mk_node ''x'' ''QuantizedConv2D'' [] quint8,
      mk_node ''D1'' ''Dequantize'' [''x'', ''x:1'', ''x:2''] quint8,
      mk_node ''Mn1'' ''Min'' [''D1''] float32,
      mk_node ''Mx1'' ''Max'' [''D1''] float32,
      mk_node ''Q1'' ''QuantizeV2'' [''D1'', ''Mn1'', ''Mx1''] quint8,
      mk_node ''D2'' ''Dequantize'' [''Q1'', ''Q1:1'', ''Q1:2''] quint8,
      mk_node ''Mn2'' ''Min'' [''D2''] float32,
      mk_node ''Mx2'' ''Max'' [''D2''] float32,
      mk_node ''Q2'' ''QuantizeV2'' [''D2'', ''Mn2'', ''Mx2''] quint8,
      mk_node ''C'' ''QuantizedMaxPool'' [''Q2'', ''Q2:1'', ''Q2:2''] quint8]"

definition chain_once :: graph where
  "chain_once =
     [mk_node ''x'' ''QuantizedConv2D'' [] quint8,
      mk_node ''D1'' ''Dequantize'' [''x'', ''x:1'', ''x:2''] quint8,
      mk_node ''Mn1'' ''Min'' [''D1''] float32,
      mk_node ''Mx1'' ''Max'' [''D1''] float32,
      mk_node ''Q1'' ''QuantizeV2'' [''D1'', ''Mn1'', ''Mx1''] quint8,
      mk_node ''D2'' ''Dequantize'' [''x'', ''x:1'', ''x:2''] quint8,
      mk_node ''Mn2'' ''Min'' [''D2''] float32,
      mk_node ''Mx2'' ''Max'' [''D2''] float32,
      mk_node ''Q2'' ''QuantizeV2'' [''D2'', ''Mn2'', ''Mx2''] quint8,
      mk_node ''C'' ''QuantizedMaxPool'' [''Q1'', ''Q1:1'', ''Q1:2''] quint8]"

definition chain_twice :: graph where
  "chain_twice =
     [mk_node ''x'' ''QuantizedConv2D'' [] quint8,
      mk_node ''D1'' ''Dequantize'' [''x'', ''x:1'', ''x:2''] quint8,
      mk_node ''Mn1'' ''Min'' [''D1''] float32,
      mk_node ''Mx1'' ''Max'' [''D1''] float32,
      mk_node ''Q1'' ''QuantizeV2'' [''D1'', ''Mn1'', ''Mx1''] quint8,
      mk_node ''D2'' ''Dequantize'' [''x'', ''x:1'', ''x:2''] quint8,
      mk_node ''Mn2'' ''Min'' [''D2''] float32,
      mk_node ''Mx2'' ''Max'' [''D2''] float32,
      mk_node ''Q2'' ''QuantizeV2'' [''D2'', ''Mn2'', ''Mx2''] quint8,
      mk_node ''C'' ''QuantizedMaxPool'' [''x'', ''x:1'', ''x:2''] quint8]"

text \<open>The Requantize epilogue after a convolution \<^verbatim>\<open>conv\<close>, per tensor and per channel.\<close>

definition conv :: node where
  "conv = mk_node ''conv'' ''Conv2D'' [''x'', ''w''] float32"

definition requant_range_per_tensor :: node where
  "requant_range_per_tensor =
     \<lparr>name = ''conv_eightbit_requant_range'', op = ''RequantizationRange'',
      input = [''q'', ''q:1'', ''q:2''], attr = [''Tinput'' \<mapsto> attr_type qint32]\<rparr>"

definition requantize_per_tensor :: node where
  "requantize_per_tensor =
     \<lparr>name = ''conv_eightbit_requantize'', op = ''Requantize'',
      input = [''q'', ''q:1'', ''q:2'', ''conv_eightbit_requant_range:0'',
               ''conv_eightbit_requant_range:1''],
      attr = [''Tinput'' \<mapsto> attr_type qint32, ''out_type'' \<mapsto> attr_type quint8]\<rparr>"

definition requant_range_per_channel :: node where
  "requant_range_per_channel =
     \<lparr>name = ''conv_eightbit_requant_range'', op = ''RequantizationRangePerChannel'',
      input = [''q'', ''q:1'', ''q:2''],
      attr = [''T'' \<mapsto> attr_type qint32, ''clip_value_max'' \<mapsto> attr_f 6]\<rparr>"

definition requantize_per_channel :: node where
  "requantize_per_channel =
     \<lparr>name = ''conv_eightbit_requantize'', op = ''RequantizePerChannel'',
      input = [''q'', ''q:1'', ''q:2'', ''conv_eightbit_requant_range:0'',
               ''conv_eightbit_requant_range:1''],
      attr = [''T'' \<mapsto> attr_type qint32, ''out_type'' \<mapsto> attr_type quint8]\<rparr>"

text \<open>
  Two fused groups, \<^verbatim>\<open>conv\<close> and \<^verbatim>\<open>fc\<close>, read the float tensor \<^verbatim>\<open>x\<close>: the object after
  the call for \<^verbatim>\<open>conv\<close>, and after a further call for the weights \<^verbatim>\<open>w\<close>.
\<close>

definition x_triple :: "string \<times> string \<times> string" where
  "x_triple = (''conv_eightbit_quantize_x'', ''conv_eightbit_quantize_x:1'', ''conv_eightbit_quantize_x:2'')"

definition after_x :: quantize_node_base where
  "after_x =
     (case eightbitize_input_to_node helper_impl fresh ''conv_eightbit'' ''x''
             ''conv_eightbit_reshape_dims'' ''conv_eightbit_reduction_dims'' qint8 of
        Inr (t, self') \<Rightarrow> self' | Inl e \<Rightarrow> fresh)"


text \<open>
  The object of \<^verbatim>\<open>__init__\<close> and \<^verbatim>\<open>_get_op_list\<close> for a graph and a start node, at
  concrete graphs that \<^verbatim>\<open>_parse_graph\<close> accepts.
\<close>

definition indexed :: "graph \<Rightarrow> string \<Rightarrow> quantize_node_base" where
  "indexed g start =
     (case parse_graph helper_impl g of
        Inr mapping \<Rightarrow>
          fresh\<lparr>node_name_mapping := mapping, op_list := get_op_list mapping,
                start_node_name := start\<rparr>
      | Inl e \<Rightarrow> fresh)"

text \<open>A pooling node whose output feeds two activations.\<close>

definition pool_graph :: graph where
  "pool_graph =
     [mk_node ''x'' ''Placeholder'' [] float32,
      mk_node ''pool'' ''MaxPool'' [''x''] float32,
      mk_node ''a'' ''Relu'' [''pool''] float32,
      mk_node ''b'' ''Relu6'' [''pool''] float32]"






text \<open>
  A stand-in for the quantize kernel at concrete tensors: it keeps the range it is
  given.
\<close>

definition no_kernel :: "ndarray \<Rightarrow> real \<Rightarrow> real \<Rightarrow> string \<Rightarrow> int list \<times> real \<times> real" where
  "no_kernel t mn mx mode = (map (\<lambda>v. 0) (snd t), mn, mx)"

section \<open>Verified properties\<close>

subsection \<open>Unfolding at concrete graphs\<close>

lemmas ex_defs = round_trip_def round_trip_rewired_def chain_def chain_once_def chain_twice_def
  mk_node_def create_node_def set_attr_dtype_def fresh_def round_trip_map_def create_nodes_map_def

lemmas impl_defs = helper_impl_def node_name_from_input_impl_def ensure_tensor_name_has_port_impl_def
  strip_port_def has_port_def is_digit_def unique_node_name_from_input_impl_def






subsection \<open>The eliminator: what is recorded\<close>

text \<open>
  C1. Take a \<^verbatim>\<open>Quantize\<close> or \<^verbatim>\<open>QuantizeV2\<close> node \<open>n\<close> whose first input names a
  \<^verbatim>\<open>Dequantize\<close> node \<open>d\<close> with the same \<^verbatim>\<open>T\<close> attribute, and whose second and third
  inputs name nodes of the accepted kinds (\<^verbatim>\<open>Min\<close> or \<^verbatim>\<open>Dequantize\<close>, \<^verbatim>\<open>Max\<close> or
  \<^verbatim>\<open>Dequantize\<close>), each with a first input. Then the loop body records a rewire for
  \<open>n\<close> if and only if the Min and Max sides trace to the same source, directly or
  through the one \<^verbatim>\<open>Concat\<close> indirection; and what it records sends the value output
  of \<open>n\<close> to the node behind the first input of \<open>d\<close>, and the outputs \<^verbatim>\<open>:1\<close> and
  \<^verbatim>\<open>:2\<close> to the second and third inputs of \<open>d\<close>. The first loop then goes on with
  exactly these three entries written to \<^verbatim>\<open>inputs_to_rename\<close>.
\<close>

theorem rewire_recorded_iff_same_source:
  assumes "op n = ''Quantize'' \<or> op n = ''QuantizeV2''"
    and "input n = na # nb # nc # ns"
    and "old_nodes_map (node_name_from_input h na) = Some d"
    and "op d = ''Dequantize''"
    and "attr_get n ''T'' = attr_get d ''T''"
    and "input d = da # db # dc # ds"
    and "old_nodes_map (node_name_from_input h nb) = Some min_node"
    and "old_nodes_map (node_name_from_input h nc) = Some max_node"
    and "op min_node = ''Min'' \<or> op min_node = ''Dequantize''"
    and "op max_node = ''Max'' \<or> op max_node = ''Dequantize''"
    and "input min_node = ma # ms"
    and "input max_node = xa # xs"
  shows "((\<exists>kvs. rewire_of h old_nodes_map n = Inr (Some kvs)) \<longleftrightarrow>
            same_source h old_nodes_map ma xa) \<and>
         (same_source h old_nodes_map ma xa \<longrightarrow>
            rewire_of h old_nodes_map n =
              Inr (Some [(ensure_tensor_name_has_port h (name n), node_name_from_input h da),
                         (name n @ '':1'', db), (name n @ '':2'', dc)]) \<and>
            scan_nodes h old_nodes_map (n # rest) inputs_to_rename =
              scan_nodes h old_nodes_map rest
                (inputs_to_rename(ensure_tensor_name_has_port h (name n) \<mapsto> node_name_from_input h da,
                                  name n @ '':1'' \<mapsto> db, name n @ '':2'' \<mapsto> dc)))"
proof -
  have rec: "same_source h old_nodes_map ma xa \<Longrightarrow>
      rewire_of h old_nodes_map n =
        Inr (Some [(ensure_tensor_name_has_port h (name n), node_name_from_input h da),
                   (name n @ '':1'', db), (name n @ '':2'', dc)])"
    using assms
    by (auto simp: rewire_of_def is_same_input_def same_source_def and_then_def item_def
        lookup_def Let_def split: option.splits sum.splits if_splits)
  have only: "rewire_of h old_nodes_map n = Inr (Some kvs) \<Longrightarrow> same_source h old_nodes_map ma xa"
    for kvs
    using assms
    by (auto simp: rewire_of_def is_same_input_def same_source_def and_then_def item_def
        lookup_def Let_def split: option.splits sum.splits if_splits)
  show ?thesis
    using rec only by auto
qed

theorem rewire_recorded_iff_same_source_witness:
  "same_source helper_impl round_trip_map ''D'' ''D'' \<and>
   rewire_of helper_impl round_trip_map (mk_node ''Q'' ''QuantizeV2'' [''D'', ''Mn'', ''Mx''] quint8) =
     Inr (Some [(''Q:0'', ''x''), (''Q:1'', ''x:1''), (''Q:2'', ''x:2'')])"
  using rewire_recorded_iff_same_source
    [where n = "mk_node ''Q'' ''QuantizeV2'' [''D'', ''Mn'', ''Mx''] quint8"
       and h = helper_impl and old_nodes_map = round_trip_map
       and na = "''D''" and nb = "''Mn''" and nc = "''Mx''" and ns = "[]"
       and d = "mk_node ''D'' ''Dequantize'' [''x'', ''x:1'', ''x:2''] quint8"
       and da = "''x''" and db = "''x:1''" and dc = "''x:2''" and ds = "[]"
       and min_node = "mk_node ''Mn'' ''Min'' [''D''] float32"
       and max_node = "mk_node ''Mx'' ''Max'' [''D''] float32"
       and ma = "''D''" and ms = "[]" and xa = "''D''" and xs = "[]"
       and rest = "[]" and inputs_to_rename = Map.empty]
  by (simp add: ex_defs impl_defs attr_get_def same_source_def)

subsection \<open>The eliminator: the input graph and the returned graph\<close>









subsection \<open>The eliminator run on its own output\<close>




subsection \<open>The Requantize epilogue\<close>

lemmas node_defs = create_node_def set_attr_dtype_def set_attr_string_def set_attr_bool_def
  set_attr_float_def

lemma add_output_graph_node_Inr:
  "add_output_graph_node self n = Inr self' \<longleftrightarrow>
     output_node_maps self (name n) = None \<and>
     self' = self\<lparr>output_graph := output_graph self @ [n],
                  output_node_maps := (output_node_maps self)(name n \<mapsto> n)\<rparr>"
  by (auto simp: add_output_graph_node_def add_output_node_def)

text \<open>
  C5, as the code has it. When the epilogue is emitted, two nodes are appended. In
  per-channel mode the \<^verbatim>\<open>RequantizationRangePerChannel\<close> node carries \<^verbatim>\<open>clip_value_max\<close>,
  6.0 when \<^verbatim>\<open>is_relu6\<close> holds and 1e30 otherwise; in per-tensor mode the
  \<^verbatim>\<open>RequantizationRange\<close> node carries no \<^verbatim>\<open>clip_value_max\<close> attribute.
\<close>

theorem requant_range_clip_value:
  assumes "emitted self
             (add_quantize_down_nodes self original_node quantized_output_name requantize_type is_relu6) =
           Inr ns"
  shows "\<exists>range_node requantize_node.
           ns = [range_node, requantize_node] \<and>
           op range_node =
             (if per_channel self then ''RequantizationRangePerChannel'' else ''RequantizationRange'') \<and>
           op requantize_node = (if per_channel self then ''RequantizePerChannel'' else ''Requantize'') \<and>
           attr range_node ''clip_value_max'' =
             (if per_channel self then Some (attr_f (if is_relu6 then 6 else 10 ^ 30)) else None)"
  using assms
  by (auto simp: emitted_def add_quantize_down_nodes_def Let_def and_then_def
      add_output_graph_node_Inr node_defs split: sum.splits if_splits)

theorem requant_range_clip_value_witness:
  "emitted (fresh\<lparr>per_channel := True\<rparr>)
     (add_quantize_down_nodes (fresh\<lparr>per_channel := True\<rparr>) conv ''q'' quint8 True) =
     Inr [requant_range_per_channel, requantize_per_channel] \<and>
   attr requant_range_per_channel ''clip_value_max'' = Some (attr_f 6)"
  using requant_range_clip_value
    [of "fresh\<lparr>per_channel := True\<rparr>" conv "''q''" quint8 True
        "[requant_range_per_channel, requantize_per_channel]"]
  by (simp add: emitted_def add_quantize_down_nodes_def Let_def and_then_def
      add_output_graph_node_def add_output_node_def node_defs fresh_def conv_def mk_node_def
      requant_range_per_channel_def requantize_per_channel_def)

text \<open>
  C5 as stated fails in per-tensor mode: the \<^verbatim>\<open>RequantizationRange\<close> node emitted for a
  chain ending in ReLU6 has no \<^verbatim>\<open>clip_value_max\<close>.
\<close>

theorem requant_range_clip_value_counterexample:
  "emitted fresh (add_quantize_down_nodes fresh conv ''q'' quint8 True) =
     Inr [requant_range_per_tensor, requantize_per_tensor] \<and>
   attr requant_range_per_tensor ''clip_value_max'' = None"
  by (simp add: emitted_def add_quantize_down_nodes_def Let_def and_then_def
      add_output_graph_node_def add_output_node_def node_defs fresh_def conv_def mk_node_def
      requant_range_per_tensor_def requantize_per_tensor_def)

subsection \<open>The quantized-input memo\<close>

lemma memo_hit:
  "quantized_node_dict self (unique_node_name_from_input h a) = Some t \<Longrightarrow>
   eightbitize_input_to_node h self p a rs rd dt = Inr (t, self)"
  by (simp add: eightbitize_input_to_node_def)

lemma memo_miss:
  assumes "quantized_node_dict self (unique_node_name_from_input h a) = None"
    and "eightbitize_input_to_node h self p a rs rd dt = Inr (t, self')"
  shows "\<exists>r mn mx q.
           output_graph self' = output_graph self @ [r, mn, mx, q] \<and>
           op r = ''Reshape'' \<and> op mn = ''Min'' \<and> op mx = ''Max'' \<and> op q = ''QuantizeV2'' \<and>
           input q = [a, name mn, name mx] \<and>
           attr q ''T'' = Some (attr_type dt) \<and>
           output_node_maps self' (name q) = Some q \<and>
           t = (name q, name q @ '':1'', name q @ '':2'') \<and>
           quantized_node_dict self' = (quantized_node_dict self)(unique_node_name_from_input h a \<mapsto> t)"
  using assms
  by (auto simp: eightbitize_input_to_node_def Let_def and_then_def add_output_graph_node_Inr
      node_defs split: sum.splits if_splits)



lemmas synth_defs = eightbitize_input_to_node_def Let_def and_then_def add_output_graph_node_def
  add_output_node_def node_defs fresh_def helper_impl_def unique_node_name_from_input_impl_def

lemma first_call_x:
  "eightbitize_input_to_node helper_impl fresh ''conv_eightbit'' ''x''
     ''conv_eightbit_reshape_dims'' ''conv_eightbit_reduction_dims'' qint8 = Inr (x_triple, after_x)"
  by (simp add: after_x_def x_triple_def synth_defs)




text \<open>
  C10. The memo is keyed by the input alone. After a first call for \<open>a\<close> with dtype
  \<open>dt1\<close> has returned, the \<^verbatim>\<open>QuantizeV2\<close> node registered under the returned name
  carries \<open>T = dt1\<close>, and a second call for \<open>a\<close> with any dtype \<open>dt2\<close> (and any other
  arguments) returns the same triple and leaves the object, hence the output graph,
  unchanged.
\<close>

theorem memo_ignores_dtype:
  assumes "quantized_node_dict self (unique_node_name_from_input h a) = None"
    and "eightbitize_input_to_node h self p a rs rd dt1 = Inr (t, self1)"
  shows "eightbitize_input_to_node h self1 p2 a rs2 rd2 dt2 = Inr (t, self1) \<and>
         (\<exists>q. output_node_maps self1 (fst t) = Some q \<and> last (output_graph self1) = q \<and>
              op q = ''QuantizeV2'' \<and> attr q ''T'' = Some (attr_type dt1))"
proof -
  from memo_miss[OF assms] obtain r mn mx q where
    shape: "output_graph self1 = output_graph self @ [r, mn, mx, q]"
      "op q = ''QuantizeV2''" "attr q ''T'' = Some (attr_type dt1)"
      "output_node_maps self1 (name q) = Some q"
      "t = (name q, name q @ '':1'', name q @ '':2'')"
    and memo: "quantized_node_dict self1 = (quantized_node_dict self)(unique_node_name_from_input h a \<mapsto> t)"
    by blast
  from memo have "quantized_node_dict self1 (unique_node_name_from_input h a) = Some t"
    by simp
  from memo_hit[OF this] have "eightbitize_input_to_node h self1 p2 a rs2 rd2 dt2 = Inr (t, self1)" .
  moreover have "output_node_maps self1 (fst t) = Some q \<and> last (output_graph self1) = q"
    using shape by simp
  ultimately show ?thesis using shape by blast
qed

theorem memo_ignores_dtype_witness:
  "eightbitize_input_to_node helper_impl fresh ''conv_eightbit'' ''x''
     ''conv_eightbit_reshape_dims'' ''conv_eightbit_reduction_dims'' qint8 = Inr (x_triple, after_x) \<and>
   eightbitize_input_to_node helper_impl after_x ''conv_eightbit'' ''x''
     ''conv_eightbit_reshape_dims'' ''conv_eightbit_reduction_dims'' quint8 = Inr (x_triple, after_x) \<and>
   attr_type_of (last (output_graph after_x)) ''T'' = qint8"
proof -
  have key: "quantized_node_dict fresh (unique_node_name_from_input helper_impl ''x'') = None"
    by (simp add: fresh_def)
  note t = memo_ignores_dtype[OF key first_call_x,
      of "''conv_eightbit''" "''conv_eightbit_reshape_dims''" "''conv_eightbit_reduction_dims''" quint8]
  from t first_call_x show ?thesis
    by (auto simp: attr_type_of_def attr_get_def)
qed

subsection \<open>The fusion matcher at an anchor with several consumers\<close>

lemma index_nodes_names:
  "(\<forall>kd \<in> set m. name (node (snd kd)) = fst kd) \<Longrightarrow> index_nodes g m = Inr m' \<Longrightarrow>
   (\<forall>kd \<in> set m'. name (node (snd kd)) = fst kd)"
proof (induction g arbitrary: m)
  case Nil
  then show ?case by simp
next
  case (Cons n ns)
  from Cons.prems(2) have nxt:
    "index_nodes ns (m @ [(name n, \<lparr>node = n, input_node = [], output_list = []\<rparr>)]) = Inr m'"
    by (simp split: if_splits)
  have "\<forall>kd \<in> set (m @ [(name n, \<lparr>node = n, input_node = [], output_list = []\<rparr>)]).
          name (node (snd kd)) = fst kd"
    using Cons.prems(1) by simp
  from Cons.IH[OF this nxt] show ?case .
qed

lemma append_output_names:
  "(\<forall>kd \<in> set m. name (node (snd kd)) = fst kd) \<Longrightarrow> append_output m key c = Inr m' \<Longrightarrow>
   (\<forall>kd \<in> set m'. name (node (snd kd)) = fst kd)"
  by (fastforce simp: append_output_def split: option.splits if_splits)

lemma link_inputs_names:
  "(\<forall>kd \<in> set m. name (node (snd kd)) = fst kd) \<Longrightarrow> link_inputs h c is m = Inr m' \<Longrightarrow>
   (\<forall>kd \<in> set m'. name (node (snd kd)) = fst kd)"
proof (induction "is" arbitrary: m)
  case Nil
  then show ?case by simp
next
  case (Cons i "is")
  from Cons.prems(2) obtain m1 where a: "append_output m (node_name_from_input h i) c = Inr m1"
    and l: "link_inputs h c is m1 = Inr m'"
    by (auto simp: and_then_def split: sum.splits)
  from append_output_names[OF Cons.prems(1) a] Cons.IH l show ?case by blast
qed

lemma link_nodes_names:
  "(\<forall>kd \<in> set m. name (node (snd kd)) = fst kd) \<Longrightarrow> link_nodes h g m = Inr m' \<Longrightarrow>
   (\<forall>kd \<in> set m'. name (node (snd kd)) = fst kd)"
proof (induction g arbitrary: m)
  case Nil
  then show ?case by simp
next
  case (Cons n ns)
  from Cons.prems(2) obtain m1 where a: "link_inputs h (name n) (input n) m = Inr m1"
    and l: "link_nodes h ns m1 = Inr m'"
    by (auto simp: and_then_def split: sum.splits)
  from link_inputs_names[OF Cons.prems(1) a] Cons.IH l show ?case by blast
qed

lemma parse_graph_names:
  assumes "parse_graph h g = Inr m"
  shows "\<forall>kd \<in> set m. name (node (snd kd)) = fst kd"
proof -
  from assms obtain m0 where i: "index_nodes g [] = Inr m0" and l: "link_nodes h g m0 = Inr m"
    by (auto simp: parse_graph_def and_then_def split: sum.splits)
  have "\<forall>kd \<in> set m0. name (node (snd kd)) = fst kd"
    using index_nodes_names[OF _ i] by simp
  from link_nodes_names[OF this l] show ?thesis .
qed

lemma extend_step_shared:
  assumes "map_of m cur = Some d" and "1 < length (output_list d)"
    and "extend_step h m rule r cur = Inr st"
  shows "st = Failed"
  using assms
  by (auto simp: extend_step_def and_then_def lookup_def Let_def split: sum.splits if_splits option.splits)

lemma extend_chain_shared:
  assumes "map_of m cur = Some d" and "1 < length (output_list d)"
    and "extend_chain h m rule r cur matched = Inr (Suc 0, ms)"
  shows "r = Suc 0 \<and> ms = matched"
proof (cases r)
  case 0
  with assms(3) show ?thesis by simp
next
  case (Suc r1)
  show ?thesis
  proof (cases r1)
    case 0
    with Suc assms(3) show ?thesis by simp
  next
    case (Suc r2)
    with \<open>r = Suc r1\<close> assms(3) extend_step_shared[OF assms(1,2), of h rule r]
    show ?thesis
      by (auto split: sum.splits chain_step.splits)
  qed
qed

lemma try_rule_shared:
  assumes "map_of m cur = Some d" and "1 < length (output_list d)"
    and "try_rule h m v cur rule = Inr (Some (rl, matched_names))"
  shows "rl = rule \<and> matched_names = [cur] \<and> length rule = 1"
  using assms(3) extend_chain_shared[OF assms(1,2), of h rule "length rule" "[cur]"]
  by (auto simp: try_rule_def and_then_def split: sum.splits if_splits prod.splits)

lemma try_rules_shared:
  assumes "map_of m cur = Some d" and "1 < length (output_list d)"
  shows "try_rules h m v cur rules = Inr (Some (rl, matched_names)) \<Longrightarrow>
         rl \<in> set rules \<and> matched_names = [cur] \<and> length rl = 1"
proof (induction rules)
  case Nil
  then show ?case by simp
next
  case (Cons rule rules)
  then show ?case
    using try_rule_shared[OF assms, of h v rule]
    by (auto split: sum.splits option.splits)
qed

lemma match_at_shared:
  assumes names: "\<forall>kd \<in> set (node_name_mapping self). name (node (snd kd)) = fst kd"
    and anchor: "map_of (node_name_mapping self) (start_node_name self) = Some d"
    and shared: "1 < length (output_list d)"
    and found: "match_at fuel h self patterns k v = Some (Inr (Some (rl, matched_names)))"
  shows "rl \<in> set patterns \<and> matched_names = [start_node_name self] \<and> length rl = 1"
proof -
  from found obtain key cur where key: "item (map fst (node_name_mapping self)) k = Inr key"
    and cur: "map_of (node_name_mapping self) key = Some cur"
    and start: "name (node cur) = start_node_name self"
    and rules: "try_rules h (node_name_mapping self) v key patterns = Inr (Some (rl, matched_names))"
    by (auto simp: match_at_def and_then_def lookup_def Let_def
        split: sum.splits if_splits option.splits)
  from map_of_SomeD[OF cur] names have "name (node cur) = key" by fastforce
  with start have "key = start_node_name self" by simp
  with rules try_rules_shared[OF anchor shared] show ?thesis by simp
qed

lemma is_match_loop_shared:
  assumes names: "\<forall>kd \<in> set (node_name_mapping self). name (node (snd kd)) = fst kd"
    and anchor: "map_of (node_name_mapping self) (start_node_name self) = Some d"
    and shared: "1 < length (output_list d)"
  shows "is_match_loop fuel h self patterns kvs = Some (Inr (Some (rl, matched_names))) \<Longrightarrow>
         rl \<in> set patterns \<and> matched_names = [start_node_name self] \<and> length rl = 1"
proof (induction kvs)
  case Nil
  then show ?case by simp
next
  case (Cons kv kvs)
  obtain k v where kv: "kv = (k, v)" by (cases kv)
  show ?case
  proof (cases "match_at fuel h self patterns k v = Some (Inr None)")
    case True
    with Cons kv show ?thesis by simp
  next
    case False
    with Cons.prems kv have "match_at fuel h self patterns k v = Some (Inr (Some (rl, matched_names)))"
      by (auto split: option.splits sum.splits)
    from match_at_shared[OF names anchor shared this] show ?thesis .
  qed
qed

lemmas match_defs = is_match_def match_at_def try_rule_def extend_step_def and_then_def item_def
  lookup_def item_int_def Let_def

lemma pool_index:
  "parse_graph helper_impl pool_graph = Inr (node_name_mapping (indexed pool_graph ''pool''))"
  by (simp add: indexed_def parse_graph_def pool_graph_def mk_node_def create_node_def set_attr_dtype_def
      and_then_def append_output_def impl_defs fresh_def)

lemma pool_consumers:
  "map_of (node_name_mapping (indexed pool_graph ''pool'')) ''pool'' =
     Some \<lparr>node = mk_node ''pool'' ''MaxPool'' [''x''] float32, input_node = [],
           output_list = [''a'', ''b'']\<rparr>"
  by (simp add: indexed_def parse_graph_def pool_graph_def mk_node_def create_node_def set_attr_dtype_def
      and_then_def append_output_def impl_defs fresh_def)

lemma pool_match:
  "is_match 1 helper_impl (indexed pool_graph ''pool'') [[''MaxPool'', ''Relu''], [''MaxPool'']] =
     Some (Inr (Some ([''MaxPool''], [''pool''])))"
  by (simp add: indexed_def parse_graph_def pool_graph_def mk_node_def create_node_def set_attr_dtype_def
      append_output_def impl_defs fresh_def get_op_list_def match_defs enumerate_eq_zip upt_rec)

text \<open>
  C2, as the code has it. Let the index be built from a graph, and let the anchor, the
  node named by the start node name, have more than one consumer. Then the matcher
  never returns a chain of two or more nodes: whenever it returns a match, the rule is
  a one-element rule of the given patterns and the chain is the anchor alone. A rule
  of two or more elements is never matched at such an anchor.
\<close>

theorem shared_anchor_matches_alone:
  assumes "parse_graph h g = Inr (node_name_mapping self)"
    and "map_of (node_name_mapping self) (start_node_name self) = Some anchor"
    and "1 < length (output_list anchor)"
    and "is_match fuel h self patterns = Some (Inr (Some (rule, matched_names)))"
  shows "matched_names = [start_node_name self] \<and> length rule = 1 \<and> rule \<in> set patterns"
  using is_match_loop_shared[OF parse_graph_names[OF assms(1)] assms(2,3)] assms(4)
  by (auto simp: is_match_def)

theorem shared_anchor_matches_alone_witness:
  "is_match 1 helper_impl (indexed pool_graph ''pool'') [[''MaxPool'', ''Relu''], [''MaxPool'']] =
     Some (Inr (Some ([''MaxPool''], [''pool'']))) \<and>
   [''pool''] = [start_node_name (indexed pool_graph ''pool'')] \<and>
   length [''MaxPool''] = 1"
proof -
  have start: "start_node_name (indexed pool_graph ''pool'') = ''pool''"
    using pool_index by (auto simp: indexed_def fresh_def split: sum.splits)
  have anchor: "map_of (node_name_mapping (indexed pool_graph ''pool''))
      (start_node_name (indexed pool_graph ''pool'')) =
      Some \<lparr>node = mk_node ''pool'' ''MaxPool'' [''x''] float32, input_node = [],
            output_list = [''a'', ''b'']\<rparr>"
    using pool_consumers start by simp
  have shared: "1 < length (output_list \<lparr>node = mk_node ''pool'' ''MaxPool'' [''x''] float32,
      input_node = [], output_list = [''a'', ''b'']\<rparr>)"
    by simp
  from shared_anchor_matches_alone[OF pool_index anchor shared pool_match] pool_match
  show ?thesis by simp
qed

text \<open>
  C2 as stated fails for a one-element rule: the pooling node feeds two consumers, and
  the matcher returns the rule \<^verbatim>\<open>[MaxPool]\<close> matched at it.
\<close>

theorem shared_anchor_counterexample:
  "map_option output_list (map_of (node_name_mapping (indexed pool_graph ''pool'')) ''pool'') =
     Some [''a'', ''b''] \<and>
   is_match 1 helper_impl (indexed pool_graph ''pool'') [[''MaxPool'']] =
     Some (Inr (Some ([''MaxPool''], [''pool''])))"
  by (simp add: indexed_def parse_graph_def pool_graph_def mk_node_def create_node_def
      set_attr_dtype_def append_output_def impl_defs fresh_def get_op_list_def match_defs
      enumerate_eq_zip upt_rec)

subsection \<open>The dtype of a quantized input\<close>







subsection \<open>Weight quantization\<close>

lemma fold_max_Max: "fold max xs (x::real) = Max (set (x # xs))"
  by (simp only: Max.set_eq_fold)

lemma fold_min_Min: "fold min xs (x::real) = Min (set (x # xs))"
  by (simp only: Min.set_eq_fold)


lemma maximum_nonempty: "xs \<noteq> [] \<Longrightarrow> maximum xs = Inr (Max (set xs))"
  by (cases xs) (auto simp only: maximum.simps fold_max_Max)

lemma minimum_nonempty: "xs \<noteq> [] \<Longrightarrow> minimum xs = Inr (Min (set xs))"
  by (cases xs) (auto simp only: minimum.simps fold_min_Min)








text \<open>
  C7. For a parent \<^verbatim>\<open>Conv2D\<close> or \<^verbatim>\<open>MatMul\<close> with \<^verbatim>\<open>per_channel\<close> false and a tensor that is
  not empty, the kernel is called with the range \<open>(mn, mx)\<close> that the correction makes
  of the tensor's minimum and maximum: \<open>mn\<close> is 0 when the minimum is positive and the
  minimum otherwise; when \<open>mn\<close> equals the maximum, \<open>mx\<close> is \<open>mn + 1\<close> for
  \<open>\<bar>mn\<bar> < 1e-6\<close>, else \<open>2 * mn\<close> for a positive \<open>mn\<close> and \<open>mn / 2\<close> for a negative one;
  otherwise \<open>mx\<close> is the maximum. A tensor with minimum and maximum 0 gives the
  range from 0 to 1.
\<close>

theorem per_tensor_range_correction:
  assumes "parent = ''Conv2D'' \<or> parent = ''MatMul''"
    and "vals \<noteq> []"
    and "corrected_range (Min (set vals)) (Max (set vals)) = (mn, mx)"
  shows "quantize_weight_values quantize_v2 parent (shape, vals) False quantization_mode =
           Inr (fst (quantize_v2 (shape, vals) mn mx quantization_mode),
                py_float (fst (snd (quantize_v2 (shape, vals) mn mx quantization_mode))),
                py_float (snd (snd (quantize_v2 (shape, vals) mn mx quantization_mode)))) \<and>
         (0 < Min (set vals) \<longrightarrow> mn = 0) \<and>
         (Min (set vals) \<le> 0 \<longrightarrow> mn = Min (set vals)) \<and>
         (mn \<noteq> Max (set vals) \<longrightarrow> mx = Max (set vals)) \<and>
         (mn = Max (set vals) \<longrightarrow>
            (\<bar>mn\<bar> < 1 / 1000000 \<longrightarrow> mx = mn + 1) \<and>
            (\<not> \<bar>mn\<bar> < 1 / 1000000 \<longrightarrow> 0 < mn \<longrightarrow> mx = 2 * mn) \<and>
            (\<not> \<bar>mn\<bar> < 1 / 1000000 \<longrightarrow> mn < 0 \<longrightarrow> mx = mn / 2)) \<and>
         (Min (set vals) = 0 \<longrightarrow> Max (set vals) = 0 \<longrightarrow> mn = 0 \<and> mx = 1)"
proof -
  have run: "quantize_weight_values quantize_v2 parent (shape, vals) False quantization_mode =
           Inr (fst (quantize_v2 (shape, vals) mn mx quantization_mode),
                py_float (fst (snd (quantize_v2 (shape, vals) mn mx quantization_mode))),
                py_float (snd (snd (quantize_v2 (shape, vals) mn mx quantization_mode))))"
    using assms minimum_nonempty[OF assms(2)] maximum_nonempty[OF assms(2)]
    by (auto simp: quantize_weight_values_def and_then_def Let_def)
  from assms(3) have "mn = (if 0 < Min (set vals) then 0 else Min (set vals))"
    and "mx = (if mn = Max (set vals) then
                 (if \<bar>mn\<bar> < 1 / 1000000 then mn + 1 else if 0 < mn then 2 * mn else mn / 2)
               else Max (set vals))"
    by (auto simp: corrected_range_def Let_def)
  with run show ?thesis by auto
qed

theorem per_tensor_range_correction_witness:
  "corrected_range 0 0 = (0, 1) \<and>
   quantize_weight_values no_kernel ''MatMul'' ([2], [0, 0]) False ''SCALED'' =
     Inr ([0, 0], py_float 0, py_float 1)"
proof -
  have c: "corrected_range (Min (set [0, 0])) (Max (set [0, 0])) = (0, 1)"
    by (simp add: corrected_range_def)
  have p: "''MatMul'' = ''Conv2D'' \<or> ''MatMul'' = ''MatMul''"
    by simp
  have ne: "[0, 0::real] \<noteq> []"
    by simp
  from per_tensor_range_correction[OF p ne c, of no_kernel "[2]" "''SCALED''"] c
  show ?thesis
    by (simp add: no_kernel_def)
qed



end
